theory Spec2Isabelle
  imports
    Complex_Main
    "HOL-Library.Word"
    "HOL-Library.Char_ord"
    "HOL-Library.List_Lexorder"
begin

section \<open>Values, keys and conditions\<close>

text \<open>
  \<^verbatim>\<open>using ValueType = std::variant<int64_t, double, std::string, bool>\<close> (key.h).
  The four alternatives keep their order, so that \<open>index\<close> below is
  \<^verbatim>\<open>std::variant::index()\<close>.  The discriminators are \<^verbatim>\<open>std::holds_alternative<T>\<close>,
  the selectors are \<^verbatim>\<open>std::get<T>\<close>; the source calls \<^verbatim>\<open>std::get<T>\<close> only behind the
  matching \<^verbatim>\<open>holds_alternative<T>\<close> (or behind the equal-index check), so its
  \<^verbatim>\<open>bad_variant_access\<close> never arises and the selectors are read only where they
  are specified.

  \<^verbatim>\<open>int64_t\<close> is a 64-bit word.  For \<^verbatim>\<open>+\<close>, \<^verbatim>\<open>-\<close> and \<^verbatim>\<open>*\<close> the model writes out the
  two's-complement wrap-around, which is what they compute on the usual targets.
  Division has no such result: the quotient \<^verbatim>\<open>INT64_MIN / -1\<close> does not fit in 64
  bits, C++ leaves the division undefined and x86-64 traps, so the model gives
  the division no value there (\<open>int64_div\<close> below).  \<^verbatim>\<open>double\<close> is a type parameter
  \<open>'f\<close>: its arithmetic is the platform's, not the repository's, and every
  function below receives it as a table of operations (\<open>double_ops\<close>).
\<close>

type_synonym int64_t = "64 word"

datatype 'f ValueType =
    holds_int64_t: Integer (get_int64_t: int64_t)
  | holds_double: Float (get_double: 'f)
  | holds_string: Text (get_string: string)
  | holds_bool: Boolean (get_bool: bool)

fun index :: "'f ValueType \<Rightarrow> nat" where
  "index (Integer _) = 0"
| "index (Float _) = 1"
| "index (Text _) = 2"
| "index (Boolean _) = 3"

text \<open>The operations on \<^verbatim>\<open>double\<close> that the source uses: the conversion
  \<^verbatim>\<open>static_cast<double>(int64_t)\<close>, the literal \<^verbatim>\<open>0.0\<close>, the four arithmetic operators
  and the six comparison operators.\<close>

record 'f double_ops =
  d_of_int64 :: "int64_t \<Rightarrow> 'f"
  d_zero :: "'f"
  d_add :: "'f \<Rightarrow> 'f \<Rightarrow> 'f"
  d_sub :: "'f \<Rightarrow> 'f \<Rightarrow> 'f"
  d_mul :: "'f \<Rightarrow> 'f \<Rightarrow> 'f"
  d_div :: "'f \<Rightarrow> 'f \<Rightarrow> 'f"
  d_eq :: "'f \<Rightarrow> 'f \<Rightarrow> bool"
  d_ne :: "'f \<Rightarrow> 'f \<Rightarrow> bool"
  d_gt :: "'f \<Rightarrow> 'f \<Rightarrow> bool"
  d_lt :: "'f \<Rightarrow> 'f \<Rightarrow> bool"
  d_ge :: "'f \<Rightarrow> 'f \<Rightarrow> bool"
  d_le :: "'f \<Rightarrow> 'f \<Rightarrow> bool"

text \<open>\<^verbatim>\<open>class Key\<close> (key.h): the members \<^verbatim>\<open>name_\<close> and \<^verbatim>\<open>value_\<close> (here
  \<open>key_name\<close> and \<open>key_value\<close>), with \<^verbatim>\<open>getName\<close>, \<^verbatim>\<open>getValue\<close> and
  \<^verbatim>\<open>setValue\<close>.\<close>

record 'f Key =
  key_name :: string
  key_value :: "'f ValueType"

definition Key :: "string \<Rightarrow> 'f ValueType \<Rightarrow> 'f Key" where
  "Key name v = \<lparr>key_name = name, key_value = v\<rparr>"

definition getName :: "'f Key \<Rightarrow> string" where
  "getName k = key_name k"

definition getValue :: "'f Key \<Rightarrow> 'f ValueType" where
  "getValue k = key_value k"

definition setValue :: "'f Key \<Rightarrow> 'f ValueType \<Rightarrow> 'f Key" where
  "setValue k v = k\<lparr>key_value := v\<rparr>"

text \<open>The enumerations of enums.h.\<close>

datatype ArithmeticOperations = ADD | SUBTRACT | MULTIPLY | DIVIDE

datatype ComparisonOperations =
  EQUAL | NOT_EQUAL | GREATER_THAN | LESS_THAN | GREATER_EQUAL | LESS_EQUAL

datatype LogicalOperations = AND | OR | NOT | NONE

text \<open>The structures of filter_structs.h.  Both expression structures have a member
  \<^verbatim>\<open>value\<close>; record fields are global names, so they are \<open>u_value\<close> and \<open>b_value\<close>
  here.\<close>

record 'f UnaryExpression =
  op :: ComparisonOperations
  key :: string
  u_value :: "'f ValueType"

record 'f BinaryExpression =
  left_key :: string
  arith_op :: ArithmeticOperations
  right_key :: string
  comp_op :: ComparisonOperations
  b_value :: "'f ValueType"

text \<open>\<^verbatim>\<open>std::variant<UnaryExpression, BinaryExpression>\<close>, again with
  \<^verbatim>\<open>holds_alternative\<close> and \<^verbatim>\<open>get\<close>.\<close>

datatype 'f Expression =
    holds_UnaryExpression: Unary (get_UnaryExpression: "'f UnaryExpression")
  | holds_BinaryExpression: Binary (get_BinaryExpression: "'f BinaryExpression")

record 'f SubExpression =
  expr :: "'f Expression"
  prev_logical_op :: LogicalOperations

record 'f FilterCondition =
  sub_expressions :: "'f SubExpression list"

section \<open>Failures\<close>

text \<open>
  A call that does not return a value ends in a \<open>Failure\<close>.  Every failure that
  the source raises is \<^verbatim>\<open>throw ParseException(message)\<close>; one constructor stands for
  each message:
  \<^item> \<open>Unknown_expression_type\<close>: "Unknown expression type";
  \<^item> \<open>Unsupported_logical_operation\<close>: "Unsupported logical operation";
  \<^item> \<open>Division_by_zero\<close>: "Division by zero";
  \<^item> \<open>Arithmetic_requires_numeric_types\<close>: "Arithmetic operations require numeric types";
  \<^item> \<open>Comparison_requires_same_type\<close>: "Comparison requires operands of the same type";
  \<^item> \<open>Unsupported_comparison_for_boolean\<close>: "Unsupported comparison operation for boolean";
  \<^item> \<open>Unsupported_type_for_comparison\<close>: "Unsupported type for comparison";
  \<^item> \<open>Key_not_found name\<close>: "Key not found: " followed by the name.

  The first and the last but one are thrown in the final \<^verbatim>\<open>else\<close> after all
  alternatives of a variant; they are kept in the functions below although no
  value reaches them.  Two more messages, "Unsupported arithmetic operation" and
  "Unsupported comparison operation", are the \<^verbatim>\<open>default\<close> of a \<^verbatim>\<open>switch\<close> that has a
  \<^verbatim>\<open>case\<close> for every enumerator of \<^verbatim>\<open>ArithmeticOperations\<close> or
  \<^verbatim>\<open>ComparisonOperations\<close>; a \<open>case\<close> over the datatype has no such branch.

  The last constructor, \<open>Undefined_division_overflow\<close>, is no exception.  It
  stands for the one operation of the source whose behaviour C++ leaves
  undefined and for which no target agrees on a result, the unguarded \<^verbatim>\<open>l / r\<close> on
  \<^verbatim>\<open>INT64_MIN\<close> and \<open>-1\<close>: the call neither returns a value nor throws (x86-64
  raises SIGFPE), and whatever follows in the call is undefined with it.
\<close>

datatype Failure =
    Unknown_expression_type
  | Unsupported_logical_operation
  | Division_by_zero
  | Arithmetic_requires_numeric_types
  | Comparison_requires_same_type
  | Unsupported_comparison_for_boolean
  | Unsupported_type_for_comparison
  | Key_not_found string
  | Undefined_division_overflow

text \<open>The four kinds of failure that the specification names, and the kind of each
  exception; the undefined division has none.\<close>

datatype ErrorKind = TypeMismatch | KeyNotFound | DivisionByZero | UnsupportedOperation

fun kind :: "Failure \<Rightarrow> ErrorKind option" where
  "kind Unknown_expression_type = Some UnsupportedOperation"
| "kind Unsupported_logical_operation = Some UnsupportedOperation"
| "kind Division_by_zero = Some DivisionByZero"
| "kind Arithmetic_requires_numeric_types = Some TypeMismatch"
| "kind Comparison_requires_same_type = Some TypeMismatch"
| "kind Unsupported_comparison_for_boolean = Some UnsupportedOperation"
| "kind Unsupported_type_for_comparison = Some UnsupportedOperation"
| "kind (Key_not_found _) = Some KeyNotFound"
| "kind Undefined_division_overflow = None"

section \<open>Arithmetic\<close>

text \<open>
  \<^verbatim>\<open>l / r\<close> on \<^verbatim>\<open>int64_t\<close>.  The quotient of the signed values truncates towards zero
  (\<open>trunc_quotient\<close>).  The division has a value only when the divisor is not 0
  and the quotient fits in 64 bits; otherwise C++ leaves it undefined, and
  \<open>int64_div\<close> is \<open>None\<close>.
\<close>

definition trunc_quotient :: "int \<Rightarrow> int \<Rightarrow> int" where
  "trunc_quotient a b = sgn a * sgn b * (\<bar>a\<bar> div \<bar>b\<bar>)"

definition int64_div :: "int64_t \<Rightarrow> int64_t \<Rightarrow> int64_t option" where
  "int64_div l r =
    (let q = trunc_quotient (sint l) (sint r) in
     if sint r = 0 \<or> q < - (2 ^ 63) \<or> 2 ^ 63 \<le> q then None
     else Some (word_of_int q))"

text \<open>\<^verbatim>\<open>LanguageParser::evaluateArithmetic\<close>, the same text in both versions of the
  parser.  The source guards the integer division against a zero divisor only, so
  the division without a value is reached on \<^verbatim>\<open>INT64_MIN\<close> and \<open>-1\<close>.\<close>

definition evaluateArithmetic ::
  "'f double_ops \<Rightarrow> 'f ValueType \<Rightarrow> ArithmeticOperations \<Rightarrow> 'f ValueType
    \<Rightarrow> Failure + 'f ValueType" where
  "evaluateArithmetic D left aop right =
    (if holds_int64_t left \<and> holds_int64_t right then
       (let l = get_int64_t left; r = get_int64_t right in
        case aop of
          ADD \<Rightarrow> Inr (Integer (l + r))
        | SUBTRACT \<Rightarrow> Inr (Integer (l - r))
        | MULTIPLY \<Rightarrow> Inr (Integer (l * r))
        | DIVIDE \<Rightarrow>
            if r = 0 then Inl Division_by_zero
            else (case int64_div l r of
                    Some q \<Rightarrow> Inr (Integer q)
                  | None \<Rightarrow> Inl Undefined_division_overflow))
     else if (holds_int64_t left \<or> holds_double left) \<and>
             (holds_int64_t right \<or> holds_double right) then
       (let l = (if holds_int64_t left then d_of_int64 D (get_int64_t left)
                 else get_double left);
            r = (if holds_int64_t right then d_of_int64 D (get_int64_t right)
                 else get_double right) in
        case aop of
          ADD \<Rightarrow> Inr (Float (d_add D l r))
        | SUBTRACT \<Rightarrow> Inr (Float (d_sub D l r))
        | MULTIPLY \<Rightarrow> Inr (Float (d_mul D l r))
        | DIVIDE \<Rightarrow> if d_eq D r (d_zero D) then Inl Division_by_zero
                    else Inr (Float (d_div D l r)))
     else Inl Arithmetic_requires_numeric_types)"

section \<open>Comparison\<close>

text \<open>The operators \<^verbatim>\<open>==\<close>, \<^verbatim>\<open>!=\<close>, \<^verbatim>\<open>>\<close>, \<^verbatim>\<open><\<close>, \<^verbatim>\<open>>=\<close>, \<^verbatim>\<open><=\<close> of one operand type.\<close>

record 'a relops =
  rel_eq :: "'a \<Rightarrow> 'a \<Rightarrow> bool"
  rel_ne :: "'a \<Rightarrow> 'a \<Rightarrow> bool"
  rel_gt :: "'a \<Rightarrow> 'a \<Rightarrow> bool"
  rel_lt :: "'a \<Rightarrow> 'a \<Rightarrow> bool"
  rel_ge :: "'a \<Rightarrow> 'a \<Rightarrow> bool"
  rel_le :: "'a \<Rightarrow> 'a \<Rightarrow> bool"

text \<open>\<^verbatim>\<open>int64_t\<close> compares as a signed number, \<^verbatim>\<open>std::string\<close> lexicographically by
  character code, \<^verbatim>\<open>bool\<close> with \<open>false < true\<close>, \<^verbatim>\<open>double\<close> by the platform's
  operators.\<close>

definition int64_rel :: "int64_t relops" where
  "int64_rel =
    \<lparr>rel_eq = (\<lambda>l r. l = r), rel_ne = (\<lambda>l r. l \<noteq> r),
     rel_gt = (\<lambda>l r. sint r < sint l), rel_lt = (\<lambda>l r. sint l < sint r),
     rel_ge = (\<lambda>l r. sint r \<le> sint l), rel_le = (\<lambda>l r. sint l \<le> sint r)\<rparr>"

definition double_rel :: "'f double_ops \<Rightarrow> 'f relops" where
  "double_rel D =
    \<lparr>rel_eq = d_eq D, rel_ne = d_ne D, rel_gt = d_gt D, rel_lt = d_lt D,
     rel_ge = d_ge D, rel_le = d_le D\<rparr>"

definition string_rel :: "string relops" where
  "string_rel =
    \<lparr>rel_eq = (\<lambda>l r. l = r), rel_ne = (\<lambda>l r. l \<noteq> r),
     rel_gt = (\<lambda>l r. r < l), rel_lt = (\<lambda>l r. l < r),
     rel_ge = (\<lambda>l r. r \<le> l), rel_le = (\<lambda>l r. l \<le> r)\<rparr>"

definition bool_rel :: "bool relops" where
  "bool_rel =
    \<lparr>rel_eq = (\<lambda>l r. l = r), rel_ne = (\<lambda>l r. l \<noteq> r),
     rel_gt = (\<lambda>l r. r < l), rel_lt = (\<lambda>l r. l < r),
     rel_ge = (\<lambda>l r. r \<le> l), rel_le = (\<lambda>l r. l \<le> r)\<rparr>"

text \<open>The generic lambda \<^verbatim>\<open>compare\<close> of the hash-map version.  \<open>T_is_bool\<close> is
  \<^verbatim>\<open>std::is_same_v<T, bool>\<close> and \<open>R\<close> the operators of \<open>T\<close> at the instantiation.\<close>

definition compare ::
  "bool \<Rightarrow> 'a relops \<Rightarrow> ComparisonOperations \<Rightarrow> 'a \<Rightarrow> 'a \<Rightarrow> Failure + bool" where
  "compare T_is_bool R cop l r =
    (case cop of
       EQUAL \<Rightarrow> Inr (rel_eq R l r)
     | NOT_EQUAL \<Rightarrow> Inr (rel_ne R l r)
     | GREATER_THAN \<Rightarrow>
         if T_is_bool then Inl Unsupported_comparison_for_boolean else Inr (rel_gt R l r)
     | LESS_THAN \<Rightarrow>
         if T_is_bool then Inl Unsupported_comparison_for_boolean else Inr (rel_lt R l r)
     | GREATER_EQUAL \<Rightarrow>
         if T_is_bool then Inl Unsupported_comparison_for_boolean else Inr (rel_ge R l r)
     | LESS_EQUAL \<Rightarrow>
         if T_is_bool then Inl Unsupported_comparison_for_boolean else Inr (rel_le R l r))"

text \<open>\<^verbatim>\<open>LanguageParser::evaluateComparison\<close> of the hash-map version.\<close>

definition evaluateComparison ::
  "'f double_ops \<Rightarrow> 'f ValueType \<Rightarrow> ComparisonOperations \<Rightarrow> 'f ValueType
    \<Rightarrow> Failure + bool" where
  "evaluateComparison D left cop right =
    (if index left \<noteq> index right then Inl Comparison_requires_same_type
     else if holds_int64_t left then
       compare False int64_rel cop (get_int64_t left) (get_int64_t right)
     else if holds_double left then
       compare False (double_rel D) cop (get_double left) (get_double right)
     else if holds_string left then
       compare False string_rel cop (get_string left) (get_string right)
     else if holds_bool left then
       compare True bool_rel cop (get_bool left) (get_bool right)
     else Inl Unsupported_type_for_comparison)"

text \<open>\<^verbatim>\<open>LanguageParser::evaluateComparison\<close> of the linear-search version: one
  \<^verbatim>\<open>switch\<close> per alternative, and for \<^verbatim>\<open>bool\<close> a \<^verbatim>\<open>default\<close> that throws.\<close>

definition evaluateComparison_linear ::
  "'f double_ops \<Rightarrow> 'f ValueType \<Rightarrow> ComparisonOperations \<Rightarrow> 'f ValueType
    \<Rightarrow> Failure + bool" where
  "evaluateComparison_linear D left cop right =
    (if index left \<noteq> index right then Inl Comparison_requires_same_type
     else if holds_int64_t left then
       (let l = get_int64_t left; r = get_int64_t right in
        case cop of
          EQUAL \<Rightarrow> Inr (l = r)
        | NOT_EQUAL \<Rightarrow> Inr (l \<noteq> r)
        | GREATER_THAN \<Rightarrow> Inr (sint r < sint l)
        | LESS_THAN \<Rightarrow> Inr (sint l < sint r)
        | GREATER_EQUAL \<Rightarrow> Inr (sint r \<le> sint l)
        | LESS_EQUAL \<Rightarrow> Inr (sint l \<le> sint r))
     else if holds_double left then
       (let l = get_double left; r = get_double right in
        case cop of
          EQUAL \<Rightarrow> Inr (d_eq D l r)
        | NOT_EQUAL \<Rightarrow> Inr (d_ne D l r)
        | GREATER_THAN \<Rightarrow> Inr (d_gt D l r)
        | LESS_THAN \<Rightarrow> Inr (d_lt D l r)
        | GREATER_EQUAL \<Rightarrow> Inr (d_ge D l r)
        | LESS_EQUAL \<Rightarrow> Inr (d_le D l r))
     else if holds_string left then
       (let l = get_string left; r = get_string right in
        case cop of
          EQUAL \<Rightarrow> Inr (l = r)
        | NOT_EQUAL \<Rightarrow> Inr (l \<noteq> r)
        | GREATER_THAN \<Rightarrow> Inr (r < l)
        | LESS_THAN \<Rightarrow> Inr (l < r)
        | GREATER_EQUAL \<Rightarrow> Inr (r \<le> l)
        | LESS_EQUAL \<Rightarrow> Inr (l \<le> r))
     else if holds_bool left then
       (let l = get_bool left; r = get_bool right in
        case cop of
          EQUAL \<Rightarrow> Inr (l = r)
        | NOT_EQUAL \<Rightarrow> Inr (l \<noteq> r)
        | _ \<Rightarrow> Inl Unsupported_comparison_for_boolean)
     else Inl Unsupported_type_for_comparison)"

section \<open>Key lookup\<close>

text \<open>\<^verbatim>\<open>LanguageParser::getValueFromKey\<close>: \<^verbatim>\<open>std::find_if\<close> returns the first key with
  the name.\<close>

definition getValueFromKey :: "'f Key list \<Rightarrow> string \<Rightarrow> Failure + 'f ValueType" where
  "getValueFromKey keys keyName =
    (case find (\<lambda>k. getName k = keyName) keys of
       Some k \<Rightarrow> Inr (getValue k)
     | None \<Rightarrow> Inl (Key_not_found keyName))"

text \<open>The index that the hash-map version builds at the start of every call:
  \<^verbatim>\<open>for (const auto& key : keys) keyMap[key.getName()] = &key.getValue();\<close>.
  The map holds pointers into \<open>keys\<close>, which the call does not modify, so the
  model stores the values.\<close>

fun build_keyMap ::
  "(string \<rightharpoonup> 'f ValueType) \<Rightarrow> 'f Key list \<Rightarrow> (string \<rightharpoonup> 'f ValueType)" where
  "build_keyMap keyMap [] = keyMap"
| "build_keyMap keyMap (k # keys) = build_keyMap (keyMap(getName k \<mapsto> getValue k)) keys"

definition getValueFromKeyMap ::
  "(string \<rightharpoonup> 'f ValueType) \<Rightarrow> string \<Rightarrow> Failure + 'f ValueType" where
  "getValueFromKeyMap keyMap keyName =
    (case keyMap keyName of
       Some v \<Rightarrow> Inr v
     | None \<Rightarrow> Inl (Key_not_found keyName))"

section \<open>The evaluator\<close>

text \<open>
  \<^verbatim>\<open>LanguageParser::parse\<close> returns a closure that owns a copy of the condition; here
  it is the function \<open>parse D condition\<close> of the keys.  The body of its loop is in
  three parts: the value of the expression (\<open>evaluateExpression\<close>, with the lookup
  \<open>get\<close> of the version as a parameter), the \<^verbatim>\<open>switch\<close> on \<^verbatim>\<open>prev_logical_op\<close>
  (\<open>combine\<close>), and the iteration (\<open>parse_loop\<close>).  An exception leaves the call at
  once, so the first \<open>Inl\<close> is the result.
\<close>

definition evaluateExpression ::
  "'f double_ops
    \<Rightarrow> ('f double_ops \<Rightarrow> 'f ValueType \<Rightarrow> ComparisonOperations \<Rightarrow> 'f ValueType
         \<Rightarrow> Failure + bool)
    \<Rightarrow> (string \<Rightarrow> Failure + 'f ValueType)
    \<Rightarrow> 'f Expression \<Rightarrow> Failure + bool" where
  "evaluateExpression D cmp get e =
    (if holds_UnaryExpression e then
       (let u = get_UnaryExpression e in
        case get (key u) of
          Inl ex \<Rightarrow> Inl ex
        | Inr keyValue \<Rightarrow> cmp D keyValue (op u) (u_value u))
     else if holds_BinaryExpression e then
       (let b = get_BinaryExpression e in
        case get (left_key b) of
          Inl ex \<Rightarrow> Inl ex
        | Inr leftValue \<Rightarrow>
            (case get (right_key b) of
               Inl ex \<Rightarrow> Inl ex
             | Inr rightValue \<Rightarrow>
                 (case evaluateArithmetic D leftValue (arith_op b) rightValue of
                    Inl ex \<Rightarrow> Inl ex
                  | Inr arithResult \<Rightarrow> cmp D arithResult (comp_op b) (b_value b))))
     else Inl Unknown_expression_type)"

definition combine :: "LogicalOperations \<Rightarrow> bool \<Rightarrow> bool \<Rightarrow> Failure + bool" where
  "combine lop result subResult =
    (case lop of
       AND \<Rightarrow> Inr (result \<and> subResult)
     | OR \<Rightarrow> Inr (result \<or> subResult)
     | NONE \<Rightarrow> Inr subResult
     | NOT \<Rightarrow> Inl Unsupported_logical_operation)"

fun parse_loop ::
  "('f Expression \<Rightarrow> Failure + bool) \<Rightarrow> bool \<Rightarrow> 'f SubExpression list
    \<Rightarrow> Failure + bool" where
  "parse_loop ev result [] = Inr result"
| "parse_loop ev result (subExpr # rest) =
    (case ev (expr subExpr) of
       Inl ex \<Rightarrow> Inl ex
     | Inr subResult \<Rightarrow>
         (case combine (prev_logical_op subExpr) result subResult of
            Inl ex \<Rightarrow> Inl ex
          | Inr result' \<Rightarrow> parse_loop ev result' rest))"

text \<open>The hash-map version: the index is built first, then the loop runs from
  \<open>result = true\<close>.\<close>

definition subResult_of ::
  "'f double_ops \<Rightarrow> 'f Key list \<Rightarrow> 'f Expression \<Rightarrow> Failure + bool" where
  "subResult_of D keys =
    evaluateExpression D evaluateComparison
      (getValueFromKeyMap (build_keyMap Map.empty keys))"

definition parse ::
  "'f double_ops \<Rightarrow> 'f FilterCondition \<Rightarrow> 'f Key list \<Rightarrow> Failure + bool" where
  "parse D condition keys =
    parse_loop (subResult_of D keys) True (sub_expressions condition)"

text \<open>The linear-search version: every lookup searches \<open>keys\<close>.\<close>

definition subResult_of_linear ::
  "'f double_ops \<Rightarrow> 'f Key list \<Rightarrow> 'f Expression \<Rightarrow> Failure + bool" where
  "subResult_of_linear D keys =
    evaluateExpression D evaluateComparison_linear (getValueFromKey keys)"

definition parse_linear ::
  "'f double_ops \<Rightarrow> 'f FilterCondition \<Rightarrow> 'f Key list \<Rightarrow> Failure + bool" where
  "parse_linear D condition keys =
    parse_loop (subResult_of_linear D keys) True (sub_expressions condition)"

section \<open>Concrete inputs\<close>

text \<open>The helpers with which test_chatgpt.cpp builds its conditions.\<close>

definition UE :: "ComparisonOperations \<Rightarrow> string \<Rightarrow> 'f ValueType \<Rightarrow> 'f UnaryExpression" where
  "UE cop k v = \<lparr>op = cop, key = k, u_value = v\<rparr>"

definition BE ::
  "string \<Rightarrow> ArithmeticOperations \<Rightarrow> string \<Rightarrow> ComparisonOperations \<Rightarrow> 'f ValueType
    \<Rightarrow> 'f BinaryExpression" where
  "BE l aop r cop v =
    \<lparr>left_key = l, arith_op = aop, right_key = r, comp_op = cop, b_value = v\<rparr>"

definition SE :: "'f Expression \<Rightarrow> LogicalOperations \<Rightarrow> 'f SubExpression" where
  "SE e lop = \<lparr>expr = e, prev_logical_op = lop\<rparr>"

text \<open>
  A table of \<^verbatim>\<open>double\<close> operations for the concrete instances below: the operations
  on rational numbers, taken exactly.  It has no rounding, infinities or NaN; it
  agrees with IEEE 754 binary64 wherever the binary64 result is exact, as it is
  at every number used below.  The general theorems hold for every table.
\<close>

definition exact_double :: "rat double_ops" where
  "exact_double =
    \<lparr>d_of_int64 = (\<lambda>w. of_int (sint w)), d_zero = 0,
     d_add = (\<lambda>l r. l + r), d_sub = (\<lambda>l r. l - r),
     d_mul = (\<lambda>l r. l * r), d_div = (\<lambda>l r. l / r),
     d_eq = (\<lambda>l r. l = r), d_ne = (\<lambda>l r. l \<noteq> r),
     d_gt = (\<lambda>l r. r < l), d_lt = (\<lambda>l r. l < r),
     d_ge = (\<lambda>l r. r \<le> l), d_le = (\<lambda>l r. l \<le> r)\<rparr>"

section \<open>Terms of the specification\<close>

text \<open>
  The words with which the specification describes results, written out so that
  the functions above can be compared with them.  Two values have an equal
  payload when they hold the same alternative and the operator \<^verbatim>\<open>==\<close> of that
  alternative holds; for \<^verbatim>\<open>double\<close> that is the platform's \<^verbatim>\<open>==\<close>.  A value is
  numeric when it is an Integer or a Float; promotion converts an Integer and
  keeps a Float; the integer and the float domain are the four operators on
  \<^verbatim>\<open>int64_t\<close> and on \<^verbatim>\<open>double\<close>.  In the integer domain the quotient is the
  truncated quotient of the signed values; it is read only where the division
  has a value.
\<close>

definition payload_equal :: "'f double_ops \<Rightarrow> 'f ValueType \<Rightarrow> 'f ValueType \<Rightarrow> bool" where
  "payload_equal D v w =
    (case (v, w) of
       (Integer a, Integer b) \<Rightarrow> a = b
     | (Float a, Float b) \<Rightarrow> d_eq D a b
     | (Text a, Text b) \<Rightarrow> a = b
     | (Boolean a, Boolean b) \<Rightarrow> a = b
     | _ \<Rightarrow> False)"

definition is_numeric :: "'f ValueType \<Rightarrow> bool" where
  "is_numeric v = (holds_int64_t v \<or> holds_double v)"

definition promote :: "'f double_ops \<Rightarrow> 'f ValueType \<Rightarrow> 'f" where
  "promote D v = (if holds_int64_t v then d_of_int64 D (get_int64_t v) else get_double v)"

definition int64_domain :: "ArithmeticOperations \<Rightarrow> int64_t \<Rightarrow> int64_t \<Rightarrow> int64_t" where
  "int64_domain aop l r =
    (case aop of
       ADD \<Rightarrow> l + r
     | SUBTRACT \<Rightarrow> l - r
     | MULTIPLY \<Rightarrow> l * r
     | DIVIDE \<Rightarrow> word_of_int (trunc_quotient (sint l) (sint r)))"

definition double_domain :: "'f double_ops \<Rightarrow> ArithmeticOperations \<Rightarrow> 'f \<Rightarrow> 'f \<Rightarrow> 'f" where
  "double_domain D aop l r =
    (case aop of
       ADD \<Rightarrow> d_add D l r
     | SUBTRACT \<Rightarrow> d_sub D l r
     | MULTIPLY \<Rightarrow> d_mul D l r
     | DIVIDE \<Rightarrow> d_div D l r)"

section \<open>Properties of the parts\<close>

lemmas model_defs =
  trunc_quotient_def int64_div_def parse_def parse_linear_def subResult_of_def subResult_of_linear_def
  evaluateExpression_def combine_def getValueFromKey_def getValueFromKeyMap_def
  evaluateComparison_def evaluateComparison_linear_def compare_def
  int64_rel_def double_rel_def string_rel_def bool_rel_def
  evaluateArithmetic_def getName_def getValue_def setValue_def Key_def
  UE_def BE_def SE_def exact_double_def

lemma find_app:
  "find P (xs @ ys) = (case find P xs of Some y \<Rightarrow> Some y | None \<Rightarrow> find P ys)"
  by (induction xs) auto

text \<open>The index maps a name to the value of the last key that carries it.\<close>

lemma build_keyMap_lookup:
  "build_keyMap m keys n =
    (case find (\<lambda>k. getName k = n) (rev keys) of
       Some k \<Rightarrow> Some (getValue k)
     | None \<Rightarrow> m n)"
proof (induction keys arbitrary: m)
  case Nil
  show ?case by simp
next
  case (Cons k keys)
  show ?case
    by (simp add: Cons.IH find_app split: option.split)
qed

lemma find_rev_distinct:
  "distinct (map f xs) \<Longrightarrow> find (\<lambda>k. f k = n) (rev xs) = find (\<lambda>k. f k = n) xs"
proof (induction xs)
  case Nil
  show ?case by simp
next
  case (Cons x xs)
  have no: "find (\<lambda>k. f k = n) xs = None" if "f x = n"
    using that Cons.prems by (force simp: find_None_iff image_iff)
  from Cons show ?case
    by (auto simp: find_app no split: option.split)
qed

lemma getValueFromKey_distinct:
  "distinct (map getName keys) \<Longrightarrow>
    getValueFromKey keys n = getValueFromKeyMap (build_keyMap Map.empty keys) n"
  by (simp add: getValueFromKey_def getValueFromKeyMap_def build_keyMap_lookup
      find_rev_distinct split: option.split)

text \<open>The two texts of \<^verbatim>\<open>evaluateComparison\<close> compute the same function.\<close>

lemma evaluateComparison_linear_eq:
  "evaluateComparison_linear D l cop r = evaluateComparison D l cop r"
  by (cases l; cases r; cases cop;
      simp add: evaluateComparison_linear_def evaluateComparison_def compare_def
        int64_rel_def double_rel_def string_rel_def bool_rel_def)

lemma subResult_of_linear_eq:
  "distinct (map getName keys) \<Longrightarrow> subResult_of_linear D keys = subResult_of D keys"
  by (rule ext)
    (simp add: subResult_of_linear_def subResult_of_def evaluateExpression_def
      getValueFromKey_distinct evaluateComparison_linear_eq Let_def
      split: sum.split)

text \<open>The loop over a sequence in two parts, and its failure as soon as one
  expression fails.\<close>

lemma parse_loop_append:
  "parse_loop ev acc (xs @ ys) =
    (case parse_loop ev acc xs of Inl ex \<Rightarrow> Inl ex | Inr a \<Rightarrow> parse_loop ev a ys)"
  by (induction xs arbitrary: acc) (auto split: sum.split)

lemma parse_loop_fails:
  "se \<in> set ses \<Longrightarrow> ev (expr se) = Inl ex \<Longrightarrow> isl (parse_loop ev acc ses)"
  by (induction ses arbitrary: acc) (auto split: sum.split)

text \<open>The loop over a sequence ends without failure exactly when no expression in
  it fails and no tag is \<^verbatim>\<open>NOT\<close>.\<close>

lemma parse_loop_passes:
  "(\<exists>acc. parse_loop ev r ses = Inr acc) =
    (\<forall>s\<in>set ses. \<not> isl (ev (expr s)) \<and> prev_logical_op s \<noteq> NOT)"
proof (induction ses arbitrary: r)
  case Nil
  show ?case by simp
next
  case (Cons s ses)
  show ?case
  proof (cases "ev (expr s)")
    case (Inl ex)
    then show ?thesis by simp
  next
    case (Inr b)
    then show ?thesis
      using Cons.IH
      by (cases "prev_logical_op s") (simp_all add: combine_def)
  qed
qed

text \<open>The integer division has no value exactly for a zero divisor and for
  \<^verbatim>\<open>INT64_MIN\<close> by \<open>-1\<close>.\<close>

lemma int_div_le_self: "0 \<le> x \<Longrightarrow> 0 < y \<Longrightarrow> x div y \<le> (x::int)"
  using zdiv_mono2 [of x 1 y] by simp

lemma trunc_quotient_overflow:
  assumes "- M \<le> a" and "a < M" and "b \<noteq> 0"
  shows "(trunc_quotient a b < - M \<or> M \<le> trunc_quotient a b) = (a = - M \<and> b = - 1)"
proof -
  have M: "0 < M"
    using assms(1,2) by linarith
  consider "a = 0" | "0 < a" "0 < b" | "0 < a" "b < 0" | "a < 0" "0 < b" | "a < 0" "b < 0"
    using assms(3) by linarith
  then show ?thesis
  proof cases
    case 1
    then show ?thesis
      using M by (simp add: trunc_quotient_def)
  next
    case 2
    have "0 \<le> a div b" "a div b \<le> a"
      using 2 by (simp_all add: pos_imp_zdiv_nonneg_iff int_div_le_self)
    then show ?thesis
      using 2 assms(2) M by (simp add: trunc_quotient_def)
  next
    case 3
    have "0 \<le> a div (- b)" "a div (- b) \<le> a"
      using 3 by (simp_all add: pos_imp_zdiv_nonneg_iff int_div_le_self)
    then show ?thesis
      using 3 assms(2) M by (simp add: trunc_quotient_def)
  next
    case 4
    have "0 \<le> (- a) div b" "(- a) div b \<le> - a"
      using 4 by (simp_all add: pos_imp_zdiv_nonneg_iff int_div_le_self)
    then show ?thesis
      using 4 assms(1) M by (simp add: trunc_quotient_def)
  next
    case 5
    have le: "(- a) div (- b) \<le> - a"
      using 5 int_div_le_self [of "- a" "- b"] by simp
    have lt: "(- a) div (- b) < - a" if "b \<noteq> - 1"
      using 5 that int_div_less_self [of "- a" "- b"] by simp
    have q: "trunc_quotient a b = (- a) div (- b)"
      using 5 by (simp add: trunc_quotient_def)
    have nonneg: "0 \<le> (- a) div (- b)"
      using 5 pos_imp_zdiv_nonneg_iff [of "- b" "- a"] by simp
    show ?thesis
    proof (cases "a = - M \<and> b = - 1")
      case True
      with q have "trunc_quotient a b = M"
        by simp
      with True show ?thesis
        by simp
    next
      case False
      then have "(- a) div (- b) < M"
        using le lt assms(1) by (cases "b = - 1") auto
      then show ?thesis
        using False nonneg M by (simp add: q)
    qed
  qed
qed

lemma int64_div_None_iff:
  "(int64_div l r = None) = (r = 0 \<or> (sint l = - (2 ^ 63) \<and> sint r = - 1))"
proof (cases "r = 0")
  case True
  then show ?thesis
    by (simp add: int64_div_def)
next
  case False
  then have r: "sint r \<noteq> 0"
    by (simp add: signed_eq_0_iff)
  have "- (2 ^ 63) \<le> sint l" and "sint l < 2 ^ 63"
    using sint_ge [of l] sint_lt [of l] by simp_all
  from trunc_quotient_overflow [OF this r] show ?thesis
    using False r by (simp add: int64_div_def Let_def)
qed

lemma int64_div_Some:
  "r \<noteq> 0 \<Longrightarrow> \<not> (sint l = - (2 ^ 63) \<and> sint r = - 1) \<Longrightarrow>
    int64_div l r = Some (word_of_int (trunc_quotient (sint l) (sint r)))"
  using int64_div_None_iff [of l r]
  by (auto simp: int64_div_def Let_def)

text \<open>Quotients truncate towards zero; \<^verbatim>\<open>INT64_MIN\<close> by \<open>1\<close> has a value,
  \<^verbatim>\<open>INT64_MIN\<close> by \<open>-1\<close> has none.\<close>

lemma division_examples:
  "evaluateArithmetic exact_double (Integer (- 7)) DIVIDE (Integer 2) = Inr (Integer (- 3)) \<and>
   evaluateArithmetic exact_double (Integer 7) DIVIDE (Integer (- 2)) = Inr (Integer (- 3)) \<and>
   evaluateArithmetic exact_double (Integer (- 9223372036854775808)) DIVIDE (Integer 1)
     = Inr (Integer (- 9223372036854775808))"
  by (simp add: evaluateArithmetic_def int64_div_def trunc_quotient_def)

lemma division_overflow_undefined:
  "evaluateArithmetic exact_double (Integer (- 9223372036854775808)) DIVIDE (Integer (- 1))
     = Inl Undefined_division_overflow"
  by (simp add: evaluateArithmetic_def int64_div_def trunc_quotient_def)

lemma build_keyMap_last:
  "getName key0 = n \<Longrightarrow> n \<notin> getName ` set post \<Longrightarrow>
    build_keyMap Map.empty (pre @ key0 # post) n = Some (getValue key0)"
proof -
  assume a: "getName key0 = n" "n \<notin> getName ` set post"
  have "find (\<lambda>k. getName k = n) (rev post) = None"
    using a(2) by (auto simp: find_None_iff)
  then show ?thesis
    using a(1) by (simp add: build_keyMap_lookup find_app)
qed

lemma build_keyMap_absent:
  "n \<notin> getName ` set keys \<Longrightarrow> build_keyMap Map.empty keys n = None"
proof -
  assume a: "n \<notin> getName ` set keys"
  have "find (\<lambda>k. getName k = n) (rev keys) = None"
    using a by (auto simp: find_None_iff)
  then show ?thesis
    by (simp add: build_keyMap_lookup)
qed

text \<open>\<^verbatim>\<open>EQUAL\<close> on two values, and a condition of one sub-expression.\<close>

lemma evaluateComparison_EQUAL:
  "evaluateComparison D v EQUAL w =
    (if index v = index w then Inr (payload_equal D v w)
     else Inl Comparison_requires_same_type)"
  by (cases v; cases w;
      simp add: evaluateComparison_def compare_def payload_equal_def
        int64_rel_def double_rel_def string_rel_def bool_rel_def)

lemma parse_single:
  "lop = NONE \<or> lop = AND \<Longrightarrow> parse_loop ev True [SE e lop] = ev e"
  by (auto simp: SE_def combine_def split: sum.split)

text \<open>On a record that repeats a name the two versions resolve it differently: the
  index keeps the last value, the search finds the first.\<close>

lemma versions_differ_on_repeated_name:
  "parse exact_double \<lparr>sub_expressions = [SE (Unary (UE EQUAL ''a'' (Integer 1))) NONE]\<rparr>
      [Key ''a'' (Integer 1), Key ''a'' (Integer 2)] = Inr False \<and>
   parse_linear exact_double
      \<lparr>sub_expressions = [SE (Unary (UE EQUAL ''a'' (Integer 1))) NONE]\<rparr>
      [Key ''a'' (Integer 1), Key ''a'' (Integer 2)] = Inr True"
  by (simp add: model_defs)

text \<open>The scenarios of the test suite: test_chatgpt.cpp's mixed addition
  \<open>2.5 + 3 \<ge> 5.0\<close>, its product \<open>7 * 6 = 42\<close>, its division by zero and its
  string comparison, and the example of basic.cpp.\<close>

lemma scenario_mixed_addition:
  "parse exact_double
      \<lparr>sub_expressions = [SE (Binary (BE ''x'' ADD ''y'' GREATER_EQUAL (Float 5))) NONE]\<rparr>
      [Key ''x'' (Float (5 / 2)), Key ''y'' (Integer 3)] = Inr True"
  by (simp add: model_defs)

lemma scenario_product:
  "parse exact_double
      \<lparr>sub_expressions = [SE (Binary (BE ''k0'' MULTIPLY ''k1'' EQUAL (Integer 42))) NONE]\<rparr>
      [Key ''k0'' (Integer 7), Key ''k1'' (Integer 6)] = Inr True \<and>
   parse exact_double
      \<lparr>sub_expressions = [SE (Binary (BE ''k0'' MULTIPLY ''k1'' EQUAL (Integer 42))) NONE]\<rparr>
      [setValue (Key ''k0'' (Integer 7)) (Integer 8), Key ''k1'' (Integer 6)] = Inr False"
  by (simp add: model_defs)

lemma scenario_division_by_zero:
  "parse exact_double
      \<lparr>sub_expressions = [SE (Binary (BE ''x'' DIVIDE ''y'' EQUAL (Integer 0))) NONE]\<rparr>
      [Key ''x'' (Integer 10), Key ''y'' (Integer 0)] = Inl Division_by_zero"
  by (simp add: model_defs)

lemma scenario_string:
  "parse exact_double
      \<lparr>sub_expressions = [SE (Unary (UE LESS_THAN ''name'' (Text ''z''))) NONE]\<rparr>
      [Key ''name'' (Text ''mango'')] = Inr True \<and>
   parse exact_double
      \<lparr>sub_expressions = [SE (Unary (UE LESS_THAN ''name'' (Text ''z''))) NONE]\<rparr>
      [setValue (Key ''name'' (Text ''mango'')) (Text ''zzz'')] = Inr False"
  by (simp add: model_defs)

lemma scenario_basic:
  "parse exact_double
      \<lparr>sub_expressions =
         [SE (Unary (UE GREATER_THAN ''A'' (Integer 10))) NONE,
          SE (Unary (UE LESS_THAN ''B'' (Integer 20))) AND]\<rparr>
      [Key ''A'' (Integer 15), Key ''B'' (Integer 15)] = Inr True"
  by (simp add: model_defs)

section \<open>The claims\<close>

subsection \<open>C1: no short-circuit\<close>

text \<open>
  C1.  The loop evaluates every sub-expression before it looks at the accumulator.
  If a sub-expression of the condition fails with an exception, the call fails,
  whatever the earlier sub-expressions gave; and when the sub-expressions before
  it pass, with any accumulator \<open>acc\<close> (false before an \<^verbatim>\<open>AND\<close>, true before an
  \<^verbatim>\<open>OR\<close>), the call fails with exactly that exception.  Both versions of the
  evaluator behave so.
\<close>

theorem no_short_circuit:
  assumes "sub_expressions c = pre @ se # post"
  shows
    "(subResult_of D keys (expr se) = Inl ex \<longrightarrow>
        isl (parse D c keys) \<and>
        (\<forall>acc. parse_loop (subResult_of D keys) True pre = Inr acc \<longrightarrow>
           parse D c keys = Inl ex)) \<and>
     (subResult_of_linear D keys (expr se) = Inl ex \<longrightarrow>
        isl (parse_linear D c keys) \<and>
        (\<forall>acc. parse_loop (subResult_of_linear D keys) True pre = Inr acc \<longrightarrow>
           parse_linear D c keys = Inl ex))"
proof -
  have mem: "se \<in> set (sub_expressions c)"
    using assms by simp
  have step: "parse_loop ev True (sub_expressions c) = Inl ex"
    if "ev (expr se) = Inl ex" and "parse_loop ev True pre = Inr acc" for ev acc
    using that assms by (simp add: parse_loop_append)
  show ?thesis
    unfolding parse_def parse_linear_def
    using parse_loop_fails [OF mem] step by blast
qed

text \<open>On the record \<open>a = 2\<close>: after \<open>a = 1\<close> the accumulator is false, and the
  \<^verbatim>\<open>AND\<close> with a missing key still fails; after \<open>a = 2\<close> it is true, and the \<^verbatim>\<open>OR\<close>
  with a missing key still fails.\<close>

theorem no_short_circuit_witness:
  "parse_loop (subResult_of exact_double [Key ''a'' (Integer 2)]) True
      [SE (Unary (UE EQUAL ''a'' (Integer 1))) NONE] = Inr False \<and>
   parse exact_double
      \<lparr>sub_expressions =
         [SE (Unary (UE EQUAL ''a'' (Integer 1))) NONE,
          SE (Unary (UE EQUAL ''b'' (Integer 1))) AND]\<rparr>
      [Key ''a'' (Integer 2)] = Inl (Key_not_found ''b'') \<and>
   parse_loop (subResult_of exact_double [Key ''a'' (Integer 2)]) True
      [SE (Unary (UE EQUAL ''a'' (Integer 2))) NONE] = Inr True \<and>
   parse exact_double
      \<lparr>sub_expressions =
         [SE (Unary (UE EQUAL ''a'' (Integer 2))) NONE,
          SE (Unary (UE EQUAL ''b'' (Integer 1))) OR]\<rparr>
      [Key ''a'' (Integer 2)] = Inl (Key_not_found ''b'')"
proof -
  let ?keys = "[Key ''a'' (Integer 2)] :: rat Key list"
  let ?f = "SE (Unary (UE EQUAL ''a'' (Integer 1))) NONE :: rat SubExpression"
  let ?t = "SE (Unary (UE EQUAL ''a'' (Integer 2))) NONE :: rat SubExpression"
  let ?and = "SE (Unary (UE EQUAL ''b'' (Integer 1))) AND :: rat SubExpression"
  let ?or = "SE (Unary (UE EQUAL ''b'' (Integer 1))) OR :: rat SubExpression"
  have pre_f: "parse_loop (subResult_of exact_double ?keys) True [?f] = Inr False"
    by (simp add: model_defs)
  have pre_t: "parse_loop (subResult_of exact_double ?keys) True [?t] = Inr True"
    by (simp add: model_defs)
  have bad_and: "subResult_of exact_double ?keys (expr ?and) = Inl (Key_not_found ''b'')"
    by (simp add: model_defs)
  have bad_or: "subResult_of exact_double ?keys (expr ?or) = Inl (Key_not_found ''b'')"
    by (simp add: model_defs)
  have c_and: "sub_expressions \<lparr>sub_expressions = [?f, ?and]\<rparr> = [?f] @ ?and # []"
    by simp
  have c_or: "sub_expressions \<lparr>sub_expressions = [?t, ?or]\<rparr> = [?t] @ ?or # []"
    by simp
  from no_short_circuit [OF c_and, of exact_double ?keys "Key_not_found ''b''"] pre_f bad_and
  have 1: "parse exact_double \<lparr>sub_expressions = [?f, ?and]\<rparr> ?keys = Inl (Key_not_found ''b'')"
    by blast
  from no_short_circuit [OF c_or, of exact_double ?keys "Key_not_found ''b''"] pre_t bad_or
  have 2: "parse exact_double \<lparr>sub_expressions = [?t, ?or]\<rparr> ?keys = Inl (Key_not_found ''b'')"
    by blast
  from pre_f pre_t 1 2 show ?thesis by blast
qed

subsection \<open>C2: a sub-expression tagged NONE\<close>

text \<open>
  C2, as stated, fails.  The condition below ends in a sub-expression tagged
  \<^verbatim>\<open>NONE\<close> whose own result on the record \<open>a = 5\<close> is true, but the first
  sub-expression names a missing key, so the call fails and returns nothing.
\<close>

theorem none_discards_accumulator_counterexample:
  "prev_logical_op (SE (Unary (UE EQUAL ''a'' (Integer 5))) NONE) = NONE \<and>
   subResult_of exact_double [Key ''a'' (Integer 5)]
      (expr (SE (Unary (UE EQUAL ''a'' (Integer 5))) NONE)) = Inr True \<and>
   parse exact_double
      \<lparr>sub_expressions =
         [SE (Unary (UE EQUAL ''b'' (Integer 5))) NONE,
          SE (Unary (UE EQUAL ''a'' (Integer 5))) NONE]\<rparr>
      [Key ''a'' (Integer 5)] = Inl (Key_not_found ''b'')"
  by (simp add: model_defs)

text \<open>
  C2, amended.  Let a sub-expression tagged \<^verbatim>\<open>NONE\<close> stand at any position, and let
  every sub-expression before it evaluate without failure and carry one of the
  tags \<^verbatim>\<open>AND\<close>, \<^verbatim>\<open>OR\<close>, \<^verbatim>\<open>NONE\<close>.  Then the call continues from that
  sub-expression's own result and nothing accumulated before it has any part in
  the outcome; when the sub-expression is the last one, the outcome of the call
  is its own outcome (its result, or its failure).  Both versions of the
  evaluator behave so.
\<close>

theorem none_discards_accumulator:
  assumes "sub_expressions c = pre @ se # post"
    and "prev_logical_op se = NONE"
  shows
    "((\<forall>s\<in>set pre. \<not> isl (subResult_of D keys (expr s)) \<and> prev_logical_op s \<noteq> NOT) \<longrightarrow>
        parse D c keys =
          (case subResult_of D keys (expr se) of
             Inl ex \<Rightarrow> Inl ex
           | Inr b \<Rightarrow> parse_loop (subResult_of D keys) b post) \<and>
        (post = [] \<longrightarrow> parse D c keys = subResult_of D keys (expr se))) \<and>
     ((\<forall>s\<in>set pre. \<not> isl (subResult_of_linear D keys (expr s)) \<and>
          prev_logical_op s \<noteq> NOT) \<longrightarrow>
        parse_linear D c keys =
          (case subResult_of_linear D keys (expr se) of
             Inl ex \<Rightarrow> Inl ex
           | Inr b \<Rightarrow> parse_loop (subResult_of_linear D keys) b post) \<and>
        (post = [] \<longrightarrow> parse_linear D c keys = subResult_of_linear D keys (expr se)))"
proof -
  have step: "parse_loop ev True (sub_expressions c) =
      (case ev (expr se) of Inl ex \<Rightarrow> Inl ex | Inr b \<Rightarrow> parse_loop ev b post)"
    if "\<forall>s\<in>set pre. \<not> isl (ev (expr s)) \<and> prev_logical_op s \<noteq> NOT" for ev
  proof -
    from that obtain a where "parse_loop ev True pre = Inr a"
      using parse_loop_passes [of ev True pre] by blast
    then show ?thesis
      using assms by (simp add: parse_loop_append combine_def split: sum.split)
  qed
  have last: "(case ev (expr se) of Inl ex \<Rightarrow> Inl ex | Inr b \<Rightarrow> parse_loop ev b []) =
      ev (expr se)" for ev :: "'a Expression \<Rightarrow> Failure + bool"
    by (simp split: sum.split)
  show ?thesis
    unfolding parse_def parse_linear_def
    using step [of "subResult_of D keys"] step [of "subResult_of_linear D keys"] last
    by auto
qed

text \<open>On the record \<open>a = 5\<close>: \<open>a = 4\<close> evaluates without failure and leaves the
  accumulator false, and the last sub-expression \<open>a = 5\<close>, tagged \<^verbatim>\<open>NONE\<close>, makes
  the call return true.\<close>

theorem none_discards_accumulator_witness:
  "parse_loop (subResult_of exact_double [Key ''a'' (Integer 5)]) True
      [SE (Unary (UE EQUAL ''a'' (Integer 4))) NONE] = Inr False \<and>
   subResult_of exact_double [Key ''a'' (Integer 5)]
      (expr (SE (Unary (UE EQUAL ''a'' (Integer 5))) NONE)) = Inr True \<and>
   parse exact_double
      \<lparr>sub_expressions =
         [SE (Unary (UE EQUAL ''a'' (Integer 4))) NONE,
          SE (Unary (UE EQUAL ''a'' (Integer 5))) NONE]\<rparr>
      [Key ''a'' (Integer 5)] = Inr True"
proof -
  let ?keys = "[Key ''a'' (Integer 5)] :: rat Key list"
  let ?se1 = "SE (Unary (UE EQUAL ''a'' (Integer 4))) NONE :: rat SubExpression"
  let ?se2 = "SE (Unary (UE EQUAL ''a'' (Integer 5))) NONE :: rat SubExpression"
  have pre: "parse_loop (subResult_of exact_double ?keys) True [?se1] = Inr False"
    by (simp add: model_defs)
  have passes: "\<forall>s\<in>set [?se1].
      \<not> isl (subResult_of exact_double ?keys (expr s)) \<and> prev_logical_op s \<noteq> NOT"
    by (simp add: model_defs)
  have own: "subResult_of exact_double ?keys (expr ?se2) = Inr True"
    by (simp add: model_defs)
  have tag: "prev_logical_op ?se2 = NONE"
    by (simp add: SE_def)
  have "sub_expressions \<lparr>sub_expressions = [?se1, ?se2]\<rparr> = [?se1] @ ?se2 # []"
    by simp
  from none_discards_accumulator [OF this tag, of exact_double ?keys] passes pre own
  show ?thesis by simp
qed

subsection \<open>C3: the last key of a name wins\<close>

text \<open>
  C3.  In the index of the hash-map evaluator a name resolves to the value of the
  last key of the record that carries it: if \<open>key0\<close> has the name and no key
  after it has, the lookup gives the value of \<open>key0\<close>, whatever stands before it,
  and a unary sub-expression on the name compares that value.  A name that no
  key of the record carries fails with "Key not found" (KeyNotFound), in the
  lookup and in the sub-expression.
\<close>

theorem resolve_last_key_wins:
  "(getName key0 = n \<and> n \<notin> getName ` set post \<longrightarrow>
      getValueFromKeyMap (build_keyMap Map.empty (pre @ key0 # post)) n
        = Inr (getValue key0) \<and>
      subResult_of D (pre @ key0 # post) (Unary (UE cop n V))
        = evaluateComparison D (getValue key0) cop V) \<and>
   (n \<notin> getName ` set keys \<longrightarrow>
      getValueFromKeyMap (build_keyMap Map.empty keys) n = Inl (Key_not_found n) \<and>
      kind (Key_not_found n) = Some KeyNotFound \<and>
      subResult_of D keys (Unary (UE cop n V)) = Inl (Key_not_found n))"
  by (simp add: getValueFromKeyMap_def build_keyMap_last build_keyMap_absent
      subResult_of_def evaluateExpression_def UE_def)

theorem resolve_last_key_wins_witness:
  "getValueFromKeyMap
      (build_keyMap Map.empty
        [Key ''a'' (Integer 1), Key ''a'' (Text ''x''), Key ''b'' (Boolean True)]) ''a''
     = Inr (Text ''x'' :: rat ValueType) \<and>
   getValueFromKeyMap
      (build_keyMap Map.empty
        [Key ''a'' (Integer 1), Key ''a'' (Text ''x''), Key ''b'' (Boolean True)]) ''c''
     = (Inl (Key_not_found ''c'') :: Failure + rat ValueType)"
proof -
  let ?k1 = "Key ''a'' (Integer 1) :: rat Key"
  let ?k2 = "Key ''a'' (Text ''x'') :: rat Key"
  let ?k3 = "Key ''b'' (Boolean True) :: rat Key"
  have a: "getName ?k2 = ''a'' \<and> ''a'' \<notin> getName ` set [?k3]"
    by (simp add: getName_def Key_def)
  have b: "''c'' \<notin> getName ` set [?k1, ?k2, ?k3]"
    by (simp add: getName_def Key_def)
  have v: "getValue ?k2 = Text ''x''"
    by (simp add: getValue_def Key_def)
  from resolve_last_key_wins [where ?key0.0 = ?k2 and n = "''a''" and post = "[?k3]"
      and pre = "[?k1]" and D = exact_double and cop = EQUAL and V = "Integer 0"
      and keys = "[]"] a v
  have first: "getValueFromKeyMap (build_keyMap Map.empty [?k1, ?k2, ?k3]) ''a''
      = Inr (Text ''x'')"
    by simp
  from resolve_last_key_wins [where ?key0.0 = ?k2 and n = "''c''" and post = "[?k3]"
      and pre = "[?k1]" and D = exact_double and cop = EQUAL and V = "Integer 0"
      and keys = "[?k1, ?k2, ?k3]"] b
  have second: "getValueFromKeyMap (build_keyMap Map.empty [?k1, ?k2, ?k3]) ''c''
      = Inl (Key_not_found ''c'')"
    by simp
  from first second show ?thesis by simp
qed

subsection \<open>C4: a single unary EQUAL\<close>

text \<open>
  C4, as stated, fails.  With the literal \<open>Integer 5\<close> and the record \<open>a = 5\<close> the
  predicate returns true; after \<^verbatim>\<open>setValue\<close> puts the text "five" in the key, the
  same predicate does not return false, it fails with "Comparison requires
  operands of the same type".  And with the only sub-expression tagged \<^verbatim>\<open>OR\<close>
  the predicate returns true on the record \<open>a = 6\<close>, since the accumulator
  starts from true.
\<close>

theorem unary_equal_counterexample:
  "parse exact_double \<lparr>sub_expressions = [SE (Unary (UE EQUAL ''a'' (Integer 5))) NONE]\<rparr>
      [Key ''a'' (Integer 5)] = Inr True \<and>
   getValue (Key ''a'' (Integer 5) :: rat Key) \<noteq> Text ''five'' \<and>
   parse exact_double \<lparr>sub_expressions = [SE (Unary (UE EQUAL ''a'' (Integer 5))) NONE]\<rparr>
      [setValue (Key ''a'' (Integer 5)) (Text ''five'')] = Inl Comparison_requires_same_type \<and>
   parse exact_double \<lparr>sub_expressions = [SE (Unary (UE EQUAL ''a'' (Integer 5))) OR]\<rparr>
      [Key ''a'' (Integer 6)] = Inr True"
  by (simp add: model_defs)

text \<open>
  C4, amended.  Take a condition of one unary \<^verbatim>\<open>EQUAL\<close> sub-expression tagged
  \<^verbatim>\<open>NONE\<close> or \<^verbatim>\<open>AND\<close>, with key \<open>k\<close> and literal \<open>V\<close>, and a record in which
  \<open>key0\<close> is the last key named \<open>k\<close>.  If the value of \<open>key0\<close> holds the same
  alternative as \<open>V\<close>, the predicate returns whether the payloads are equal (true
  iff they are); if it holds another alternative, the predicate fails with
  "Comparison requires operands of the same type" (TypeMismatch).  After
  \<^verbatim>\<open>setValue\<close> replaces the value by any \<open>w\<close>, the same predicate gives the same
  answer for \<open>w\<close>: false when \<open>w\<close> holds the alternative of \<open>V\<close> with an unequal
  payload, the failure when it holds another alternative.
\<close>

theorem unary_equal_follows_key_value:
  assumes "sub_expressions c = [SE (Unary (UE EQUAL k V)) lop]"
    and "lop = NONE \<or> lop = AND"
    and "getName key0 = k"
    and "k \<notin> getName ` set post"
  shows
    "parse D c (pre @ key0 # post) =
       (if index (getValue key0) = index V then Inr (payload_equal D (getValue key0) V)
        else Inl Comparison_requires_same_type) \<and>
     (parse D c (pre @ key0 # post) = Inr True) =
       (index (getValue key0) = index V \<and> payload_equal D (getValue key0) V) \<and>
     parse D c (pre @ setValue key0 w # post) =
       (if index w = index V then Inr (payload_equal D w V)
        else Inl Comparison_requires_same_type)"
proof -
  have res: "subResult_of D (pre @ x # post) (Unary (UE EQUAL k V)) =
      evaluateComparison D (getValue x) EQUAL V" if "getName x = k" for x
    using that assms(4)
    by (simp add: subResult_of_def evaluateExpression_def UE_def getValueFromKeyMap_def
        build_keyMap_last)
  have upd: "getName (setValue key0 w) = k" "getValue (setValue key0 w) = w"
    using assms(3) by (simp_all add: getName_def getValue_def setValue_def)
  have one: "parse D c keys = subResult_of D keys (Unary (UE EQUAL k V))" for keys
    unfolding parse_def assms(1) by (rule parse_single [OF assms(2)])
  show ?thesis
    using res [OF assms(3)] res [OF upd(1)] upd(2)
    by (simp add: one evaluateComparison_EQUAL)
qed

text \<open>The first test of test_chatgpt.cpp, with one more key in the record: true on
  \<open>a = 5\<close>, false after \<open>a\<close> is set to 6.\<close>

theorem unary_equal_follows_key_value_witness:
  "parse exact_double \<lparr>sub_expressions = [SE (Unary (UE EQUAL ''a'' (Integer 5))) NONE]\<rparr>
      [Key ''b'' (Boolean True), Key ''a'' (Integer 5)] = Inr True \<and>
   parse exact_double \<lparr>sub_expressions = [SE (Unary (UE EQUAL ''a'' (Integer 5))) NONE]\<rparr>
      [Key ''b'' (Boolean True), setValue (Key ''a'' (Integer 5)) (Integer 6)] = Inr False"
proof -
  let ?c = "\<lparr>sub_expressions = [SE (Unary (UE EQUAL ''a'' (Integer 5))) NONE]\<rparr>
    :: rat FilterCondition"
  let ?k = "Key ''a'' (Integer 5) :: rat Key"
  have c: "sub_expressions ?c = [SE (Unary (UE EQUAL ''a'' (Integer 5))) NONE]"
    by simp
  have n: "getName ?k = ''a''" and v: "getValue ?k = Integer 5"
    by (simp_all add: getName_def getValue_def Key_def)
  have p: "''a'' \<notin> getName ` set ([] :: rat Key list)"
    by simp
  from unary_equal_follows_key_value [OF c _ n p, where D = exact_double
      and w = "Integer 6" and pre = "[Key ''b'' (Boolean True)]"] v
  show ?thesis
    by (simp add: payload_equal_def)
qed

subsection \<open>C5: the promotion rule\<close>

text \<open>
  C5, as stated, fails: \<^verbatim>\<open>DIVIDE\<close> with a zero right operand returns neither an
  Integer (two Integers) nor a Float (two Floats); it fails with "Division by
  zero".
\<close>

theorem arithmetic_promotion_counterexample:
  "evaluateArithmetic exact_double (Integer 1) DIVIDE (Integer 0) = Inl Division_by_zero \<and>
   evaluateArithmetic exact_double (Float 1) DIVIDE (Float 0) = Inl Division_by_zero"
  by (simp add: evaluateArithmetic_def exact_double_def)

text \<open>
  C5, amended.  For two Integers other than \<^verbatim>\<open>INT64_MIN\<close> divided by \<open>-1\<close>, the
  result is the Integer computed in the 64-bit integer domain, unless the
  operator is \<^verbatim>\<open>DIVIDE\<close> and the right operand is 0.  When one operand is a Float
  and the other an Integer or a Float, both are promoted to \<^verbatim>\<open>double\<close> and the
  result is the Float computed in the float domain, unless the operator is
  \<^verbatim>\<open>DIVIDE\<close> and the promoted right operand compares equal to 0.0.  In both
  exceptions the call fails with "Division by zero".  When an operand is a Text
  or a Boolean the call fails with "Arithmetic operations require numeric types"
  (TypeMismatch), for every operator.

  \<^verbatim>\<open>INT64_MIN\<close> divided by \<open>-1\<close> is outside the claim: the source divides there
  without a guard, the quotient does not fit in 64 bits, and no Integer is
  returned; the theorem records that the call is undefined on that input.
\<close>

theorem arithmetic_promotion_rule:
  "evaluateArithmetic D (Integer l) aop (Integer r) =
     (if aop = DIVIDE \<and> r = 0 then Inl Division_by_zero
      else if aop = DIVIDE \<and> sint l = - (2 ^ 63) \<and> sint r = - 1
        then Inl Undefined_division_overflow
      else Inr (Integer (int64_domain aop l r))) \<and>
   ((holds_double left \<or> holds_double right) \<and> is_numeric left \<and> is_numeric right \<longrightarrow>
      evaluateArithmetic D left aop right =
        (if aop = DIVIDE \<and> d_eq D (promote D right) (d_zero D) then Inl Division_by_zero
         else Inr (Float (double_domain D aop (promote D left) (promote D right))))) \<and>
   (holds_string left \<or> holds_bool left \<or> holds_string right \<or> holds_bool right \<longrightarrow>
      evaluateArithmetic D left aop right = Inl Arithmetic_requires_numeric_types \<and>
      kind Arithmetic_requires_numeric_types = Some TypeMismatch)"
proof (intro conjI impI)
  show "evaluateArithmetic D (Integer l) aop (Integer r) =
     (if aop = DIVIDE \<and> r = 0 then Inl Division_by_zero
      else if aop = DIVIDE \<and> sint l = - (2 ^ 63) \<and> sint r = - 1
        then Inl Undefined_division_overflow
      else Inr (Integer (int64_domain aop l r)))"
  proof (cases aop)
    case DIVIDE
    show ?thesis
    proof (cases "int64_div l r")
      case None
      then show ?thesis
        using DIVIDE int64_div_None_iff [of l r]
        by (auto simp: evaluateArithmetic_def)
    next
      case (Some q)
      then have "r \<noteq> 0" and "\<not> (sint l = - (2 ^ 63) \<and> sint r = - 1)"
        using int64_div_None_iff [of l r] by auto
      then show ?thesis
        using DIVIDE int64_div_Some [of r l]
        by (simp add: evaluateArithmetic_def int64_domain_def)
    qed
  qed (simp_all add: evaluateArithmetic_def int64_domain_def)
next
  assume "(holds_double left \<or> holds_double right) \<and> is_numeric left \<and> is_numeric right"
  then show "evaluateArithmetic D left aop right =
        (if aop = DIVIDE \<and> d_eq D (promote D right) (d_zero D) then Inl Division_by_zero
         else Inr (Float (double_domain D aop (promote D left) (promote D right))))"
    by (cases left; cases right; cases aop)
      (simp_all add: evaluateArithmetic_def is_numeric_def promote_def double_domain_def)
next
  assume "holds_string left \<or> holds_bool left \<or> holds_string right \<or> holds_bool right"
  then show "evaluateArithmetic D left aop right = Inl Arithmetic_requires_numeric_types"
    by (cases left; cases right) (simp_all add: evaluateArithmetic_def)
next
  show "kind Arithmetic_requires_numeric_types = Some TypeMismatch"
    by simp
qed

theorem arithmetic_promotion_rule_witness:
  "evaluateArithmetic exact_double (Integer 7) MULTIPLY (Integer 6) = Inr (Integer 42) \<and>
   evaluateArithmetic exact_double (Float (5 / 2)) ADD (Integer 3) = Inr (Float (11 / 2)) \<and>
   evaluateArithmetic exact_double (Integer 1) SUBTRACT (Text ''1'')
     = Inl Arithmetic_requires_numeric_types"
proof -
  have a: "(holds_double (Float (5 / 2) :: rat ValueType) \<or>
        holds_double (Integer 3 :: rat ValueType)) \<and>
      is_numeric (Float (5 / 2) :: rat ValueType) \<and> is_numeric (Integer 3 :: rat ValueType)"
    by (simp add: is_numeric_def)
  have b: "holds_string (Integer 1 :: rat ValueType) \<or> holds_bool (Integer 1 :: rat ValueType)
      \<or> holds_string (Text ''1'' :: rat ValueType) \<or> holds_bool (Text ''1'' :: rat ValueType)"
    by simp
  from arithmetic_promotion_rule [of exact_double 7 MULTIPLY 6 "Float (5 / 2)" "Integer 3"]
  have 1: "evaluateArithmetic exact_double (Integer 7) MULTIPLY (Integer 6) = Inr (Integer 42)"
    by (simp add: int64_domain_def)
  from arithmetic_promotion_rule [of exact_double 7 ADD 6 "Float (5 / 2)" "Integer 3"] a
  have 2: "evaluateArithmetic exact_double (Float (5 / 2)) ADD (Integer 3)
      = Inr (Float (11 / 2))"
    by (simp add: double_domain_def promote_def exact_double_def)
  from arithmetic_promotion_rule [of exact_double 7 SUBTRACT 6 "Integer 1" "Text ''1''"] b
  have 3: "evaluateArithmetic exact_double (Integer 1) SUBTRACT (Text ''1'')
      = Inl Arithmetic_requires_numeric_types"
    by simp
  from 1 2 3 show ?thesis by simp
qed

subsection \<open>C6: division by zero\<close>

text \<open>
  C6.  \<^verbatim>\<open>DIVIDE\<close> with a left operand that is an Integer or a Float, and a right
  operand that is the Integer 0 or a Float that compares equal to 0.0, fails with
  "Division by zero" (DivisionByZero) whatever the left operand is; the call
  returns no value, so no infinity.  For a Float divided by the Integer 0 the
  source compares the converted 0 with 0.0; that the two compare equal is a fact
  of the platform's \<^verbatim>\<open>double\<close> (it holds in IEEE 754) and is the last premise.
\<close>

theorem divide_by_zero_fails:
  assumes "holds_int64_t left \<or> holds_double left"
    and "right = Integer 0 \<or> (holds_double right \<and> d_eq D (get_double right) (d_zero D))"
    and "holds_double left \<Longrightarrow> right = Integer 0 \<Longrightarrow> d_eq D (d_of_int64 D 0) (d_zero D)"
  shows "evaluateArithmetic D left DIVIDE right = Inl Division_by_zero \<and>
    kind Division_by_zero = Some DivisionByZero"
  using assms
  by (cases left; cases right) (auto simp: evaluateArithmetic_def)

theorem divide_by_zero_fails_witness:
  "evaluateArithmetic exact_double (Integer 10) DIVIDE (Integer 0) = Inl Division_by_zero \<and>
   evaluateArithmetic exact_double (Float (5 / 2)) DIVIDE (Integer 0) = Inl Division_by_zero \<and>
   evaluateArithmetic exact_double (Integer 10) DIVIDE (Float 0) = Inl Division_by_zero \<and>
   evaluateArithmetic exact_double (Float (5 / 2)) DIVIDE (Float 0) = Inl Division_by_zero"
proof -
  have z: "d_eq exact_double (d_of_int64 exact_double 0) (d_zero exact_double)"
    by (simp add: exact_double_def)
  have f: "holds_double (Float 0 :: rat ValueType) \<and>
      d_eq exact_double (get_double (Float 0 :: rat ValueType)) (d_zero exact_double)"
    by (simp add: exact_double_def)
  have 1: "evaluateArithmetic exact_double (Integer 10) DIVIDE (Integer 0) = Inl Division_by_zero"
    using divide_by_zero_fails [of "Integer 10" "Integer 0" exact_double] z by simp
  have 2: "evaluateArithmetic exact_double (Float (5 / 2)) DIVIDE (Integer 0)
      = Inl Division_by_zero"
    using divide_by_zero_fails [of "Float (5 / 2)" "Integer 0" exact_double] z by simp
  have 3: "evaluateArithmetic exact_double (Integer 10) DIVIDE (Float 0) = Inl Division_by_zero"
    using divide_by_zero_fails [of "Integer 10" "Float 0" exact_double] z f by simp
  have 4: "evaluateArithmetic exact_double (Float (5 / 2)) DIVIDE (Float 0)
      = Inl Division_by_zero"
    using divide_by_zero_fails [of "Float (5 / 2)" "Float 0" exact_double] z f by simp
  from 1 2 3 4 show ?thesis by simp
qed

subsection \<open>C7: comparison of different alternatives\<close>

text \<open>
  C7.  When the two operands hold different alternatives of the variant (an
  Integer and a Float included), the comparison fails with "Comparison requires
  operands of the same type" (TypeMismatch) for every operator, in both versions;
  nothing is converted.
\<close>

theorem comparison_type_mismatch:
  assumes "index left \<noteq> index right"
  shows "evaluateComparison D left cop right = Inl Comparison_requires_same_type \<and>
    evaluateComparison_linear D left cop right = Inl Comparison_requires_same_type \<and>
    kind Comparison_requires_same_type = Some TypeMismatch"
  using assms by (simp add: evaluateComparison_def evaluateComparison_linear_def)

theorem comparison_type_mismatch_witness:
  "evaluateComparison exact_double (Integer 1) EQUAL (Float 1)
     = Inl Comparison_requires_same_type \<and>
   evaluateComparison_linear exact_double (Integer 1) LESS_EQUAL (Text ''1'')
     = Inl Comparison_requires_same_type"
proof -
  have 1: "index (Integer 1 :: rat ValueType) \<noteq> index (Float 1 :: rat ValueType)"
    by simp
  have 2: "index (Integer 1 :: rat ValueType) \<noteq> index (Text ''1'' :: rat ValueType)"
    by simp
  from comparison_type_mismatch [OF 1, of exact_double EQUAL]
    comparison_type_mismatch [OF 2, of exact_double LESS_EQUAL]
  show ?thesis by simp
qed

subsection \<open>C8: comparison of Booleans\<close>

text \<open>
  C8.  On two Booleans, \<^verbatim>\<open>EQUAL\<close> returns whether they are equal and \<^verbatim>\<open>NOT_EQUAL\<close>
  whether they differ, without failure; each of \<^verbatim>\<open>GREATER_THAN\<close>, \<^verbatim>\<open>LESS_THAN\<close>,
  \<^verbatim>\<open>GREATER_EQUAL\<close> and \<^verbatim>\<open>LESS_EQUAL\<close> fails with "Unsupported comparison operation
  for boolean" (UnsupportedOperation).  Both versions behave so.
\<close>

theorem boolean_comparison:
  "evaluateComparison D (Boolean a) cop (Boolean b) =
     (if cop = EQUAL then Inr (a = b)
      else if cop = NOT_EQUAL then Inr (a \<noteq> b)
      else Inl Unsupported_comparison_for_boolean) \<and>
   evaluateComparison_linear D (Boolean a) cop (Boolean b) =
     (if cop = EQUAL then Inr (a = b)
      else if cop = NOT_EQUAL then Inr (a \<noteq> b)
      else Inl Unsupported_comparison_for_boolean) \<and>
   kind Unsupported_comparison_for_boolean = Some UnsupportedOperation"
  by (cases cop)
    (simp_all add: evaluateComparison_def evaluateComparison_linear_def compare_def
      bool_rel_def)

theorem boolean_comparison_witness:
  "evaluateComparison exact_double (Boolean True) GREATER_THAN (Boolean False)
     = Inl Unsupported_comparison_for_boolean \<and>
   evaluateComparison exact_double (Boolean True) LESS_THAN (Boolean False)
     = Inl Unsupported_comparison_for_boolean \<and>
   evaluateComparison exact_double (Boolean True) GREATER_EQUAL (Boolean False)
     = Inl Unsupported_comparison_for_boolean \<and>
   evaluateComparison exact_double (Boolean True) LESS_EQUAL (Boolean False)
     = Inl Unsupported_comparison_for_boolean \<and>
   evaluateComparison exact_double (Boolean True) EQUAL (Boolean True) = Inr True \<and>
   evaluateComparison exact_double (Boolean True) NOT_EQUAL (Boolean True) = Inr False"
  using boolean_comparison [of exact_double True GREATER_THAN False]
    boolean_comparison [of exact_double True LESS_THAN False]
    boolean_comparison [of exact_double True GREATER_EQUAL False]
    boolean_comparison [of exact_double True LESS_EQUAL False]
    boolean_comparison [of exact_double True EQUAL True]
    boolean_comparison [of exact_double True NOT_EQUAL True]
  by simp

subsection \<open>C9: the empty condition\<close>

text \<open>C9.  A condition with no sub-expression evaluates to true on every record, in
  both versions of the evaluator; no key is looked up and nothing can fail.\<close>

theorem parse_empty_condition:
  "parse D \<lparr>sub_expressions = []\<rparr> keys = Inr True \<and>
   parse_linear D \<lparr>sub_expressions = []\<rparr> keys = Inr True"
  by (simp add: parse_def parse_linear_def)

theorem parse_empty_condition_witness:
  "parse exact_double \<lparr>sub_expressions = []\<rparr> [Key ''a'' (Text ''x'')] = Inr True \<and>
   parse_linear exact_double \<lparr>sub_expressions = []\<rparr> [] = Inr True"
  using parse_empty_condition [of exact_double "[Key ''a'' (Text ''x'')]"]
    parse_empty_condition [of exact_double "[]"]
  by simp

subsection \<open>C10: the two versions on distinct names\<close>

text \<open>
  C10.  On a record whose key names are pairwise distinct, the linear-search
  evaluator and the hash-map evaluator give the same outcome for every
  condition, the same boolean or the same exception.  They agree on every
  sub-expression and on every initial part of the condition, so a failure arises
  at the same sub-expression in both.
\<close>

theorem linear_and_hash_map_agree:
  assumes "distinct (map getName keys)"
  shows "parse_linear D c keys = parse D c keys \<and>
    (\<forall>n. parse_linear D \<lparr>sub_expressions = take n (sub_expressions c)\<rparr> keys =
          parse D \<lparr>sub_expressions = take n (sub_expressions c)\<rparr> keys) \<and>
    (\<forall>e. subResult_of_linear D keys e = subResult_of D keys e)"
  by (simp add: parse_linear_def parse_def subResult_of_linear_eq [OF assms])

theorem linear_and_hash_map_agree_witness:
  "parse_linear exact_double
      \<lparr>sub_expressions =
         [SE (Unary (UE GREATER_THAN ''a'' (Integer 10))) NONE,
          SE (Unary (UE LESS_THAN ''b'' (Integer 20))) AND]\<rparr>
      [Key ''a'' (Integer 15), Key ''b'' (Integer 15)] = Inr True \<and>
   parse exact_double
      \<lparr>sub_expressions =
         [SE (Unary (UE GREATER_THAN ''a'' (Integer 10))) NONE,
          SE (Unary (UE LESS_THAN ''b'' (Integer 20))) AND]\<rparr>
      [Key ''a'' (Integer 15), Key ''b'' (Integer 15)] = Inr True"
proof -
  let ?keys = "[Key ''a'' (Integer 15), Key ''b'' (Integer 15)] :: rat Key list"
  let ?c = "\<lparr>sub_expressions =
         [SE (Unary (UE GREATER_THAN ''a'' (Integer 10))) NONE,
          SE (Unary (UE LESS_THAN ''b'' (Integer 20))) AND]\<rparr> :: rat FilterCondition"
  have d: "distinct (map getName ?keys)"
    by (simp add: getName_def Key_def)
  have v: "parse exact_double ?c ?keys = Inr True"
    by (simp add: model_defs)
  from linear_and_hash_map_agree [OF d, of exact_double ?c] v
  show ?thesis by simp
qed

end
